theory Spec2Isabelle
  imports Main "HOL-Library.AList"
begin

section \<open>Strings\<close>

text \<open>
  A Python \<open>str\<close> is a sequence of code points; a \<open>char\<close> here is a code point below 256,
  so a \<open>string\<close> is a text of such code points (text with a code point from 256 on is
  outside this type). On these, the two string methods the handlers call are:
  \<open>str.lower()\<close>, which maps each code point by itself, \<open>A\<close>..\<open>Z\<close> to \<open>a\<close>..\<open>z\<close> and the
  thirty capital letters 0xC0..0xDE other than 0xD7 to the code point 32 higher, and leaves
  every other code point alone; and \<open>str.strip()\<close>, which removes leading and trailing
  whitespace, the code points 9 to 13, 28 to 32, 0x85 and 0xA0.
\<close>

definition lower_char :: "char \<Rightarrow> char" where
  "lower_char c =
     (case map_of
             (zip (''ABCDEFGHIJKLMNOPQRSTUVWXYZ'' @
                   [CHR 0xC0, CHR 0xC1, CHR 0xC2, CHR 0xC3, CHR 0xC4, CHR 0xC5, CHR 0xC6, CHR 0xC7,
                    CHR 0xC8, CHR 0xC9, CHR 0xCA, CHR 0xCB, CHR 0xCC, CHR 0xCD, CHR 0xCE, CHR 0xCF,
                    CHR 0xD0, CHR 0xD1, CHR 0xD2, CHR 0xD3, CHR 0xD4, CHR 0xD5, CHR 0xD6, CHR 0xD8,
                    CHR 0xD9, CHR 0xDA, CHR 0xDB, CHR 0xDC, CHR 0xDD, CHR 0xDE])
                  (''abcdefghijklmnopqrstuvwxyz'' @
                   [CHR 0xE0, CHR 0xE1, CHR 0xE2, CHR 0xE3, CHR 0xE4, CHR 0xE5, CHR 0xE6, CHR 0xE7,
                    CHR 0xE8, CHR 0xE9, CHR 0xEA, CHR 0xEB, CHR 0xEC, CHR 0xED, CHR 0xEE, CHR 0xEF,
                    CHR 0xF0, CHR 0xF1, CHR 0xF2, CHR 0xF3, CHR 0xF4, CHR 0xF5, CHR 0xF6, CHR 0xF8,
                    CHR 0xF9, CHR 0xFA, CHR 0xFB, CHR 0xFC, CHR 0xFD, CHR 0xFE])) c of
        None \<Rightarrow> c
      | Some l \<Rightarrow> l)"

definition lower :: "string \<Rightarrow> string" where
  "lower s = map lower_char s"

definition is_space :: "char \<Rightarrow> bool" where
  "is_space c \<longleftrightarrow>
     c \<in> set [CHR 0x09, CHR 0x0A, CHR 0x0B, CHR 0x0C, CHR 0x0D,
              CHR 0x1C, CHR 0x1D, CHR 0x1E, CHR 0x1F, CHR 0x20,
              CHR 0x85, CHR 0xA0]"

definition strip :: "string \<Rightarrow> string" where
  "strip s = rev (dropWhile is_space (rev (dropWhile is_space s)))"

section \<open>Requests and responses\<close>

text \<open>
  \<open>request.json\<close> is an object with string values; \<open>data.get(k, '')\<close> reads a key and
  gives the empty string when the key is missing. A handler returns \<open>jsonify({...}), code\<close>:
  the body is kept as the list of its fields in the order the source writes them.
\<close>

type_synonym request = "string \<rightharpoonup> string"

definition get_default :: "request \<Rightarrow> string \<Rightarrow> string" where
  "get_default data k = (case data k of None \<Rightarrow> [] | Some v \<Rightarrow> v)"

text \<open>
  The exceptions the handlers can meet: the one \<open>initialize_firebase\<close> raises again, with
  its text; the \<open>KeyError\<close> of a dictionary read with a missing key; the error of an
  \<open>update\<close> of a document that does not exist. Both handlers catch them and answer with
  \<open>'message': str(e)\<close>; that text is not spelled out here, the field holds the exception.
\<close>

datatype error = FirebaseError string | KeyError string | NotFound string

datatype json = JStr string | JInt int | JBool bool | JList "string list" | JException error

type_synonym body = "(string \<times> json) list"

type_synonym response = "body \<times> nat"

section \<open>The dictionary index and the fuzzy matcher\<close>

text \<open>
  \<open>TEMPORARY_DICTIONARIES\<close> is imported from the module \<open>combined_dictionaries\<close>, whose
  content is not part of the handlers: it is a parameter of both of them. A Python dict is
  an association list in insertion order (\<open>d[k]\<close> is \<open>map_of d k\<close>, \<open>list(d.keys())\<close> is
  \<open>keys d\<close>). \<open>process.extractOne\<close> of fuzzywuzzy is a parameter too: a function from
  the query and the candidate keys to the best candidate and its integer score.
\<close>

type_synonym bucket = "(string \<times> string) list"

type_synonym dictionaries = "(string \<times> bucket) list"

type_synonym matcher = "string \<Rightarrow> string list \<Rightarrow> string \<times> int"

definition keys :: "('k \<times> 'v) list \<Rightarrow> 'k list" where
  "keys d = map fst d"

section \<open>The document store\<close>

text \<open>
  The Firestore collections the handlers touch: \<open>contributions\<close> (documents by id),
  \<open>language_pairs\<close> (one aggregate document per bucket key) and, under each aggregate, the
  subcollection \<open>translations\<close> (documents by bucket key and id). A collection is an
  association list; \<open>document(k).set(v)\<close> replaces the document at \<open>k\<close> or adds it.
  \<open>firebase_error\<close> is \<open>Some msg\<close> when \<open>initialize_firebase\<close> raises. A document has
  the fields \<open>contribute\<close> writes, with the types it writes them in; the field \<open>id\<close> is
  \<open>doc_id\<close> here. \<open>translate\<close> and \<open>contribute\<close> below handle a
  request alone, from its first line to its answer, and a store that was initialised answers
  every call; requests whose store calls alternate come after them.
\<close>

record contribution =
  doc_id :: string
  source_text :: string
  target_text :: string
  source_language :: string
  target_language :: string
  source_example :: string
  target_example :: string
  status :: string
  created_at :: string
  updated_at :: string
  votes :: int
  reviewed :: bool

record language_pair =
  pair_source_language :: string
  pair_target_language :: string
  total_contributions :: int
  pending_contributions :: int
  validated_contributions :: int
  last_updated :: string

record store =
  firebase_error :: "string option"
  contributions :: "(string \<times> contribution) list"
  language_pairs :: "(string \<times> language_pair) list"
  pair_translations :: "((string \<times> string) \<times> contribution) list"

definition initialize_firebase :: "store \<Rightarrow> error + store" where
  "initialize_firebase s =
     (case firebase_error s of Some msg \<Rightarrow> Inl (FirebaseError msg) | None \<Rightarrow> Inr s)"

text \<open>
  \<open>db.collection('contributions').where(...).where(...).where(...).where(...).limit(1).get()\<close>:
  the documents that pass the four equality filters, cut to at most one.
\<close>

definition query_contributions ::
  "store \<Rightarrow> string \<Rightarrow> string \<Rightarrow> string \<Rightarrow> string \<Rightarrow> contribution list" where
  "query_contributions db text src tgt st =
     take 1 (filter (\<lambda>c. source_text c = text \<and> source_language c = src \<and>
                          target_language c = tgt \<and> status c = st)
               (map snd (contributions db)))"

definition internal_error :: "error \<Rightarrow> response" where
  "internal_error e =
     ([(''error'', JStr ''Internal server error''), (''message'', JException e)], 500)"

section \<open>The resolution handler\<close>

text \<open>The last two tiers of \<open>translate\<close> (lines 105 to 132): the pending lookup and the not-found answer.\<close>

definition translate_pending :: "store \<Rightarrow> string \<Rightarrow> string \<Rightarrow> string \<Rightarrow> response" where
  "translate_pending s text source_lang target_lang =
     (case initialize_firebase s of
        Inl e \<Rightarrow> internal_error e
      | Inr db \<Rightarrow>
          (case query_contributions db text source_lang target_lang ''pending'' of
             pending_data # _ \<Rightarrow>
               ([(''originalText'', JStr text),
                 (''translation'', JStr (target_text pending_data)),
                 (''matchType'', JStr ''pending''),
                 (''note'', JStr ''This is a pending contribution awaiting review''),
                 (''sourceLang'', JStr source_lang),
                 (''targetLang'', JStr target_lang)], 200)
           | [] \<Rightarrow>
               ([(''originalText'', JStr text),
                 (''translation'', JStr (''No translation found for '' @ [CHR 0x27] @ text @ [CHR 0x27])),
                 (''matchType'', JStr ''none''),
                 (''sourceLang'', JStr source_lang),
                 (''targetLang'', JStr target_lang),
                 (''suggestion'', JStr ''Consider contributing a translation'')], 404)))"

text \<open>The fuzzy tier (lines 89 to 103), falling through to the pending tier.\<close>

definition translate_fuzzy ::
  "matcher \<Rightarrow> store \<Rightarrow> bucket \<Rightarrow> string \<Rightarrow> string \<Rightarrow> string \<Rightarrow> response" where
  "translate_fuzzy extractOne s dictionary text source_lang target_lang =
     (if dictionary \<noteq> [] then
        (case extractOne text (keys dictionary) of
           (best_match, score) \<Rightarrow>
             if score \<ge> 70 then
               (case map_of dictionary best_match of
                  None \<Rightarrow> internal_error (KeyError best_match)
                | Some t \<Rightarrow>
                    ([(''originalText'', JStr text),
                      (''translation'', JStr t),
                      (''matchType'', JStr ''fuzzy''),
                      (''fuzzyMatchScore'', JInt score),
                      (''matchedWord'', JStr best_match),
                      (''sourceLang'', JStr source_lang),
                      (''targetLang'', JStr target_lang)], 200))
             else translate_pending s text source_lang target_lang)
      else translate_pending s text source_lang target_lang)"

definition translate :: "dictionaries \<Rightarrow> matcher \<Rightarrow> store \<Rightarrow> request \<Rightarrow> response" where
  "translate TEMPORARY_DICTIONARIES extractOne s data =
     (let source_lang = strip (lower (get_default data ''sourceLang''));
          target_lang = strip (lower (get_default data ''targetLang''));
          text = strip (lower (get_default data ''text''))
      in if text = [] then
           ([(''error'', JStr ''No text provided for translation'')], 400)
         else if source_lang = [] \<or> target_lang = [] then
           ([(''error'', JStr ''Source or target language not specified'')], 400)
         else
           (let dict_key = source_lang @ ''-'' @ target_lang
            in case map_of TEMPORARY_DICTIONARIES dict_key of
                 None \<Rightarrow>
                   ([(''translation'', JStr (''Translation between '' @ source_lang @ '' and '' @
                                             target_lang @ '' is not currently supported'')),
                     (''matchType'', JStr ''none''),
                     (''supportedPairs'', JList (keys TEMPORARY_DICTIONARIES))], 404)
               | Some dictionary \<Rightarrow>
                   (case map_of dictionary text of
                      Some t \<Rightarrow>
                        ([(''originalText'', JStr text),
                          (''translation'', JStr t),
                          (''matchType'', JStr ''exact''),
                          (''sourceLang'', JStr source_lang),
                          (''targetLang'', JStr target_lang)], 200)
                    | None \<Rightarrow>
                        translate_fuzzy extractOne s dictionary text source_lang target_lang)))"

section \<open>The contribution handler\<close>

text \<open>
  Python's truth test on \<open>existing_translation\<close>, which is \<open>None\<close> or a string: \<open>None\<close>
  and the empty string are false.
\<close>

fun truthy :: "string option \<Rightarrow> bool" where
  "truthy None = False"
| "truthy (Some v) = (v \<noteq> [])"

text \<open>
  Lines 215 to 254 of \<open>contribute\<close>: the primary document, the aggregate (created with its
  counters at 0 when \<open>lang_pair_ref.get().exists\<close> is false), the update with
  \<open>firestore.Increment(1)\<close> on two counters, and the copy in the subcollection. An
  \<open>update\<close> of a document that does not exist raises.
\<close>

definition save_contribution ::
  "store \<Rightarrow> string \<Rightarrow> string \<Rightarrow> string \<Rightarrow> contribution \<Rightarrow> response \<times> store" where
  "save_contribution db dict_key contribution_id timestamp contribution =
     (let db1 = db\<lparr>contributions := AList.update contribution_id contribution (contributions db)\<rparr>;
          db2 = (if map_of (language_pairs db1) dict_key = None then
                   db1\<lparr>language_pairs := AList.update dict_key
                          \<lparr>pair_source_language = source_language contribution,
                           pair_target_language = target_language contribution,
                           total_contributions = 0,
                           pending_contributions = 0,
                           validated_contributions = 0,
                           last_updated = timestamp\<rparr> (language_pairs db1)\<rparr>
                 else db1)
      in case map_of (language_pairs db2) dict_key of
           None \<Rightarrow> (internal_error (NotFound dict_key), db2)
         | Some lang_pair \<Rightarrow>
             (let db3 = db2\<lparr>language_pairs := AList.update dict_key
                            (lang_pair\<lparr>total_contributions := total_contributions lang_pair + 1,
                                       pending_contributions := pending_contributions lang_pair + 1,
                                       last_updated := timestamp\<rparr>) (language_pairs db2)\<rparr>;
                  db4 = db3\<lparr>pair_translations :=
                            AList.update (dict_key, contribution_id) contribution (pair_translations db3)\<rparr>
              in (([(''success'', JBool True),
                    (''message'', JStr ''Contribution received and pending review''),
                    (''contribution_id'', JStr contribution_id),
                    (''status'', JStr ''pending''),
                    (''language_pair'', JStr dict_key)], 201), db4)))"

text \<open>
  Lines 168 to 186 of \<open>contribute\<close>: the translation found in the bucket, if the bucket
  exists and has the source text as a key; when that is \<open>None\<close> or empty, the target text
  of a validated contribution for the same text and languages, if the query finds one.
\<close>

definition find_existing_translation ::
  "dictionaries \<Rightarrow> store \<Rightarrow> string \<Rightarrow> string \<Rightarrow> string \<Rightarrow> string \<Rightarrow> string option" where
  "find_existing_translation TEMPORARY_DICTIONARIES db dict_key source_text' source_language'
       target_language' =
     (let existing_translation =
            (case map_of TEMPORARY_DICTIONARIES dict_key of
               None \<Rightarrow> None
             | Some dictionary \<Rightarrow> map_of dictionary source_text')
      in if \<not> truthy existing_translation then
           (case query_contributions db source_text' source_language' target_language'
                   ''validated'' of
              approved # _ \<Rightarrow> Some (target_text approved)
            | [] \<Rightarrow> existing_translation)
         else existing_translation)"

text \<open>
  \<open>contribute\<close>: \<open>uuid4\<close> is the string \<open>str(uuid.uuid4())\<close> gives for this request and
  \<open>now\<close> the string \<open>datetime.now().isoformat()\<close> gives; the result is the response and
  the store after the request.
\<close>

definition contribute ::
  "dictionaries \<Rightarrow> string \<Rightarrow> string \<Rightarrow> store \<Rightarrow> request \<Rightarrow> response \<times> store" where
  "contribute TEMPORARY_DICTIONARIES uuid4 now s data =
     (case initialize_firebase s of
        Inl e \<Rightarrow> (internal_error e, s)
      | Inr db \<Rightarrow>
          (let source_text' = lower (strip (get_default data ''source_text''));
               target_text' = strip (get_default data ''target_text'');
               source_language' = strip (lower (get_default data ''source_language''));
               target_language' = strip (lower (get_default data ''target_language''));
               source_example' = strip (get_default data ''source_example'');
               target_example' = strip (get_default data ''target_example'')
           in if source_text' = [] \<or> target_text' = [] then
                (([(''error'', JStr ''Source text and target text are required'')], 400), db)
              else if source_language' = [] \<or> target_language' = [] then
                (([(''error'', JStr ''Source language and target language are required'')], 400), db)
              else
                (let dict_key = source_language' @ ''-'' @ target_language';
                     existing_translation =
                       find_existing_translation TEMPORARY_DICTIONARIES db dict_key
                         source_text' source_language' target_language'
                 in if truthy existing_translation then
                      (([(''error'', JStr ''This translation already exists''),
                         (''existing_translation'', JStr (the existing_translation)),
                         (''status'', JStr ''duplicate'')], 409), db)
                    else
                      save_contribution db dict_key uuid4 now
                        \<lparr>doc_id = uuid4,
                         source_text = source_text',
                         target_text = target_text',
                         source_language = source_language',
                         target_language = target_language',
                         source_example = source_example',
                         target_example = target_example',
                         status = ''pending'',
                         created_at = now,
                         updated_at = now,
                         votes = 0,
                         reviewed = False\<rparr>)))"

section \<open>Notions used by the properties\<close>


text \<open>The bucket key a contribution request is filed under (line 166).\<close>

definition contribution_key :: "request \<Rightarrow> string" where
  "contribution_key data =
     strip (lower (get_default data ''source_language'')) @ ''-'' @
     strip (lower (get_default data ''target_language''))"

text \<open>The record \<open>contribute\<close> builds for a request (lines 200 to 213).\<close>

definition new_contribution :: "string \<Rightarrow> string \<Rightarrow> request \<Rightarrow> contribution" where
  "new_contribution uuid4 now data =
     \<lparr>doc_id = uuid4,
      source_text = lower (strip (get_default data ''source_text'')),
      target_text = strip (get_default data ''target_text''),
      source_language = strip (lower (get_default data ''source_language'')),
      target_language = strip (lower (get_default data ''target_language'')),
      source_example = strip (get_default data ''source_example''),
      target_example = strip (get_default data ''target_example''),
      status = ''pending'',
      created_at = now,
      updated_at = now,
      votes = 0,
      reviewed = False\<rparr>"

text \<open>The body and status of an accepted contribution (lines 248 to 254).\<close>

definition success :: "string \<Rightarrow> string \<Rightarrow> response" where
  "success uuid4 dict_key =
     ([(''success'', JBool True),
       (''message'', JStr ''Contribution received and pending review''),
       (''contribution_id'', JStr uuid4),
       (''status'', JStr ''pending''),
       (''language_pair'', JStr dict_key)], 201)"

text \<open>
  The three counters of the aggregate of a bucket key: total, pending, validated. A key with
  no aggregate document counts as three zeros, the values a new aggregate is created with.
\<close>

definition counters :: "store \<Rightarrow> string \<Rightarrow> int \<times> int \<times> int" where
  "counters s k =
     (case map_of (language_pairs s) k of
        None \<Rightarrow> (0, 0, 0)
      | Some a \<Rightarrow> (total_contributions a, pending_contributions a, validated_contributions a))"

text \<open>Every aggregate document has at least as many contributions in total as pending.\<close>

definition aggregate_invariant :: "store \<Rightarrow> bool" where
  "aggregate_invariant s \<longleftrightarrow>
     (\<forall>k a. map_of (language_pairs s) k = Some a \<longrightarrow>
            pending_contributions a \<le> total_contributions a)"

text \<open>
  A document is in \<open>contributions\<close> under an id exactly when the same document is in the
  \<open>translations\<close> subcollection of some pair under that id.
\<close>

definition copies_in_sync :: "store \<Rightarrow> bool" where
  "copies_in_sync s \<longleftrightarrow>
     (\<forall>i c. map_of (contributions s) i = Some c \<longleftrightarrow>
            (\<exists>k. map_of (pair_translations s) (k, i) = Some c))"

text \<open>
  The service handling contribution requests one after another, each with its own id and
  timestamp. \<open>translate\<close> has no store in its result: it cannot change one.
\<close>

fun contribute_all :: "dictionaries \<Rightarrow> store \<Rightarrow> (string \<times> string \<times> request) list \<Rightarrow> store" where
  "contribute_all TEMPORARY_DICTIONARIES s [] = s"
| "contribute_all TEMPORARY_DICTIONARIES s ((uuid4, now, data) # requests) =
     contribute_all TEMPORARY_DICTIONARIES
       (snd (contribute TEMPORARY_DICTIONARIES uuid4 now s data)) requests"

text \<open>A stored pending document with the source text and the languages of a contribution request.\<close>

definition pending_duplicate :: "request \<Rightarrow> contribution \<Rightarrow> bool" where
  "pending_duplicate data c \<longleftrightarrow>
     source_text c = lower (strip (get_default data ''source_text'')) \<and>
     source_language c = strip (lower (get_default data ''source_language'')) \<and>
     target_language c = strip (lower (get_default data ''target_language'')) \<and>
     status c = ''pending''"

section \<open>Requests that overlap\<close>

text \<open>
  \<open>contribute\<close> holds no lock and opens no transaction, so the store calls of two requests
  can alternate. A request in progress is at one of these points of the handler: received;
  past validation and the duplicate checks (the query of line 178 is the one store call up to
  there); past the write of the primary document (line 218); past
  \<open>lang_pair_ref.get().exists\<close> (line 224), holding the answer it got; past the creation of
  the aggregate (lines 225 to 232); past the update of the counters (lines 235 to 239); and
  answered, after the write of the copy (line 242) or an error.
\<close>

datatype point =
    Received
  | Deduplicated
  | Primary_saved
  | Pair_checked bool
  | Pair_created
  | Counters_updated
  | Answered response

text \<open>A request in progress: its id, its timestamp, its body and the point it has reached.\<close>

record request_run =
  run_uuid4 :: string
  run_now :: string
  run_data :: request
  run_point :: point

definition start :: "string \<Rightarrow> string \<Rightarrow> request \<Rightarrow> request_run" where
  "start uuid4 now data =
     \<lparr>run_uuid4 = uuid4, run_now = now, run_data = data, run_point = Received\<rparr>"

text \<open>
  \<open>lang_pair_ref.update\<close> with \<open>firestore.Increment(1)\<close> on the two counters: one call, which
  the store carries out on the document as it is at that moment.
\<close>

definition update_counters :: "request_run \<Rightarrow> store \<Rightarrow> request_run \<times> store" where
  "update_counters r s =
     (let dict_key = contribution_key (run_data r)
      in case map_of (language_pairs s) dict_key of
           None \<Rightarrow> (r\<lparr>run_point := Answered (internal_error (NotFound dict_key))\<rparr>, s)
         | Some lang_pair \<Rightarrow>
             (r\<lparr>run_point := Counters_updated\<rparr>,
              s\<lparr>language_pairs := AList.update dict_key
                   (lang_pair\<lparr>total_contributions := total_contributions lang_pair + 1,
                              pending_contributions := pending_contributions lang_pair + 1,
                              last_updated := run_now r\<rparr>) (language_pairs s)\<rparr>))"

text \<open>
  One step of a request: the code from the point it has reached up to and including its next
  store call, on the store as it is then.
\<close>

definition step :: "dictionaries \<Rightarrow> request_run \<Rightarrow> store \<Rightarrow> request_run \<times> store" where
  "step TEMPORARY_DICTIONARIES r s =
     (let data = run_data r;
          dict_key = contribution_key data;
          contribution = new_contribution (run_uuid4 r) (run_now r) data
      in case run_point r of
           Received \<Rightarrow>
             (case initialize_firebase s of
                Inl e \<Rightarrow> (r\<lparr>run_point := Answered (internal_error e)\<rparr>, s)
              | Inr db \<Rightarrow>
                  if source_text contribution = [] \<or> target_text contribution = [] then
                    (r\<lparr>run_point := Answered
                        ([(''error'', JStr ''Source text and target text are required'')], 400)\<rparr>, s)
                  else if source_language contribution = [] \<or> target_language contribution = [] then
                    (r\<lparr>run_point := Answered
                        ([(''error'', JStr ''Source language and target language are required'')],
                         400)\<rparr>, s)
                  else
                    (let existing_translation =
                           find_existing_translation TEMPORARY_DICTIONARIES db dict_key
                             (source_text contribution) (source_language contribution)
                             (target_language contribution)
                     in if truthy existing_translation then
                          (r\<lparr>run_point := Answered
                              ([(''error'', JStr ''This translation already exists''),
                                (''existing_translation'', JStr (the existing_translation)),
                                (''status'', JStr ''duplicate'')], 409)\<rparr>, s)
                        else (r\<lparr>run_point := Deduplicated\<rparr>, s)))
         | Deduplicated \<Rightarrow>
             (r\<lparr>run_point := Primary_saved\<rparr>,
              s\<lparr>contributions := AList.update (run_uuid4 r) contribution (contributions s)\<rparr>)
         | Primary_saved \<Rightarrow>
             (r\<lparr>run_point := Pair_checked (map_of (language_pairs s) dict_key \<noteq> None)\<rparr>, s)
         | Pair_checked exists \<Rightarrow>
             if \<not> exists then
               (r\<lparr>run_point := Pair_created\<rparr>,
                s\<lparr>language_pairs := AList.update dict_key
                     \<lparr>pair_source_language = source_language contribution,
                      pair_target_language = target_language contribution,
                      total_contributions = 0,
                      pending_contributions = 0,
                      validated_contributions = 0,
                      last_updated = run_now r\<rparr> (language_pairs s)\<rparr>)
             else update_counters r s
         | Pair_created \<Rightarrow> update_counters r s
         | Counters_updated \<Rightarrow>
             (r\<lparr>run_point := Answered (success (run_uuid4 r) dict_key)\<rparr>,
              s\<lparr>pair_translations :=
                   AList.update (dict_key, run_uuid4 r) contribution (pair_translations s)\<rparr>)
         | Answered response \<Rightarrow> (r, s))"

text \<open>
  A schedule names, step by step, which request moves next; the store calls are carried out
  one at a time in that order.
\<close>

fun interleave ::
  "dictionaries \<Rightarrow> nat list \<Rightarrow> request_run list \<Rightarrow> store \<Rightarrow> request_run list \<times> store" where
  "interleave TEMPORARY_DICTIONARIES [] runs s = (runs, s)"
| "interleave TEMPORARY_DICTIONARIES (i # schedule) runs s =
     (if i < length runs then
        (case step TEMPORARY_DICTIONARIES (runs ! i) s of
           (r, s') \<Rightarrow> interleave TEMPORARY_DICTIONARIES schedule (runs[i := r]) s')
      else interleave TEMPORARY_DICTIONARIES schedule runs s)"

section \<open>Normalization\<close>










section \<open>Properties of the resolution handler\<close>

text \<open>
  C1 (exact tier first). A request that passes validation, whose bucket exists and whose
  normalized text is a key of that bucket, is answered with the bucket's translation and
  matchType \<open>exact\<close>, status 200. The answer is the same for every fuzzy matcher and every
  store: neither the fuzzy tier nor the pending tier has a say, whatever score the matcher
  would give to another key of the bucket.
\<close>

theorem translate_exact_first:
  assumes "text = strip (lower (get_default data ''text''))"
    and "source_lang = strip (lower (get_default data ''sourceLang''))"
    and "target_lang = strip (lower (get_default data ''targetLang''))"
    and "text \<noteq> []" and "source_lang \<noteq> []" and "target_lang \<noteq> []"
    and "map_of TEMPORARY_DICTIONARIES (source_lang @ ''-'' @ target_lang) = Some dictionary"
    and "map_of dictionary text = Some t"
  shows "\<forall>extractOne s. translate TEMPORARY_DICTIONARIES extractOne s data =
           ([(''originalText'', JStr text),
             (''translation'', JStr t),
             (''matchType'', JStr ''exact''),
             (''sourceLang'', JStr source_lang),
             (''targetLang'', JStr target_lang)], 200)"
  using assms by (simp add: translate_def Let_def)

theorem translate_exact_first_witness:
  "\<forall>extractOne s.
     translate [(''en-fr'', [(''hello'', ''bonjour''), (''help'', ''aide'')])] extractOne s
       [''sourceLang'' \<mapsto> ''EN'', ''targetLang'' \<mapsto> '' fr'', ''text'' \<mapsto> ''Hello '' ] =
       ([(''originalText'', JStr ''hello''),
         (''translation'', JStr ''bonjour''),
         (''matchType'', JStr ''exact''),
         (''sourceLang'', JStr ''en''),
         (''targetLang'', JStr ''fr'')], 200)"
  using translate_exact_first
    [of "''hello''" "[''sourceLang'' \<mapsto> ''EN'', ''targetLang'' \<mapsto> '' fr'', ''text'' \<mapsto> ''Hello '' ]"
        "''en''" "''fr''" "[(''en-fr'', [(''hello'', ''bonjour''), (''help'', ''aide'')])]"
        "[(''hello'', ''bonjour''), (''help'', ''aide'')]" "''bonjour''"]
  by (simp add: get_default_def strip_def lower_def lower_char_def is_space_def)

lemma translate_pending_not_fuzzy:
  "map_of (fst (translate_pending s text source_lang target_lang)) ''matchType'' \<noteq> Some (JStr ''fuzzy'')"
  by (simp add: translate_pending_def internal_error_def split: sum.splits list.splits)

text \<open>
  C2 (fuzzy threshold). A request that reaches the fuzzy tier (validation passed, the bucket
  exists and is not empty, the normalized text is not one of its keys), with a matcher that
  answers a key of the bucket and a score: when the score is at least 70 the answer is the
  fuzzy one, with the translation of the matched key, the score and the matched key; when it
  is below 70 the answer is the one of the pending tier. So matchType is \<open>fuzzy\<close> exactly
  when the score is at least 70.
\<close>

theorem translate_fuzzy_threshold:
  assumes "text = strip (lower (get_default data ''text''))"
    and "source_lang = strip (lower (get_default data ''sourceLang''))"
    and "target_lang = strip (lower (get_default data ''targetLang''))"
    and "text \<noteq> []" and "source_lang \<noteq> []" and "target_lang \<noteq> []"
    and "map_of TEMPORARY_DICTIONARIES (source_lang @ ''-'' @ target_lang) = Some dictionary"
    and "dictionary \<noteq> []"
    and "map_of dictionary text = None"
    and "extractOne text (keys dictionary) = (best_match, score)"
    and "map_of dictionary best_match = Some t"
  shows "(if 70 \<le> score then
            translate TEMPORARY_DICTIONARIES extractOne s data =
              ([(''originalText'', JStr text),
                (''translation'', JStr t),
                (''matchType'', JStr ''fuzzy''),
                (''fuzzyMatchScore'', JInt score),
                (''matchedWord'', JStr best_match),
                (''sourceLang'', JStr source_lang),
                (''targetLang'', JStr target_lang)], 200)
          else
            translate TEMPORARY_DICTIONARIES extractOne s data =
              translate_pending s text source_lang target_lang) \<and>
         (map_of (fst (translate TEMPORARY_DICTIONARIES extractOne s data)) ''matchType'' =
            Some (JStr ''fuzzy'') \<longleftrightarrow> 70 \<le> score)"
  using assms translate_pending_not_fuzzy [of s "text" source_lang target_lang]
  by (simp add: translate_def translate_fuzzy_def Let_def)


theorem translate_fuzzy_threshold_witness:
  "translate [(''en-fr'', [(''hello'', ''bonjour'')])] (\<lambda>q cs. (''hello'', 70))
     \<lparr>firebase_error = None, contributions = [], language_pairs = [], pair_translations = []\<rparr>
     [''sourceLang'' \<mapsto> ''en'', ''targetLang'' \<mapsto> ''fr'', ''text'' \<mapsto> ''helo''] =
     ([(''originalText'', JStr ''helo''),
       (''translation'', JStr ''bonjour''),
       (''matchType'', JStr ''fuzzy''),
       (''fuzzyMatchScore'', JInt 70),
       (''matchedWord'', JStr ''hello''),
       (''sourceLang'', JStr ''en''),
       (''targetLang'', JStr ''fr'')], 200) \<and>
   translate [(''en-fr'', [(''hello'', ''bonjour'')])] (\<lambda>q cs. (''hello'', 69))
     \<lparr>firebase_error = None, contributions = [], language_pairs = [], pair_translations = []\<rparr>
     [''sourceLang'' \<mapsto> ''en'', ''targetLang'' \<mapsto> ''fr'', ''text'' \<mapsto> ''helo''] =
     translate_pending
       \<lparr>firebase_error = None, contributions = [], language_pairs = [], pair_translations = []\<rparr>
       ''helo'' ''en'' ''fr''"
  using translate_fuzzy_threshold
    [of "''helo''" "[''sourceLang'' \<mapsto> ''en'', ''targetLang'' \<mapsto> ''fr'', ''text'' \<mapsto> ''helo'']"
        "''en''" "''fr''" "[(''en-fr'', [(''hello'', ''bonjour'')])]" "[(''hello'', ''bonjour'')]"
        "\<lambda>q cs. (''hello'', 70)" "''hello''" 70 "''bonjour''"
        "\<lparr>firebase_error = None, contributions = [], language_pairs = [], pair_translations = []\<rparr>"]
    translate_fuzzy_threshold
    [of "''helo''" "[''sourceLang'' \<mapsto> ''en'', ''targetLang'' \<mapsto> ''fr'', ''text'' \<mapsto> ''helo'']"
        "''en''" "''fr''" "[(''en-fr'', [(''hello'', ''bonjour'')])]" "[(''hello'', ''bonjour'')]"
        "\<lambda>q cs. (''hello'', 69)" "''hello''" 69 "''bonjour''"
        "\<lparr>firebase_error = None, contributions = [], language_pairs = [], pair_translations = []\<rparr>"]
  by (simp add: get_default_def strip_def lower_def lower_char_def is_space_def)

text \<open>
  C5 (unsupported pair). A request that passes validation and whose bucket key is not a key
  of the dictionary index is answered with the not-supported message, matchType \<open>none\<close> and
  the list of all bucket keys, status 404; the store is not consulted, so the answer is never
  the status 500 of a failed store, whatever the store and the matcher are.
\<close>

theorem translate_unsupported_pair:
  assumes "text = strip (lower (get_default data ''text''))"
    and "source_lang = strip (lower (get_default data ''sourceLang''))"
    and "target_lang = strip (lower (get_default data ''targetLang''))"
    and "text \<noteq> []" and "source_lang \<noteq> []" and "target_lang \<noteq> []"
    and "map_of TEMPORARY_DICTIONARIES (source_lang @ ''-'' @ target_lang) = None"
  shows "\<forall>extractOne s. translate TEMPORARY_DICTIONARIES extractOne s data =
           ([(''translation'', JStr (''Translation between '' @ source_lang @ '' and '' @
                                     target_lang @ '' is not currently supported'')),
             (''matchType'', JStr ''none''),
             (''supportedPairs'', JList (keys TEMPORARY_DICTIONARIES))], 404)"
  using assms by (simp add: translate_def Let_def)

theorem translate_unsupported_pair_witness:
  "\<forall>extractOne s.
     translate [(''en-fr'', [(''hello'', ''bonjour'')])] extractOne s
       [''sourceLang'' \<mapsto> ''en'', ''targetLang'' \<mapsto> ''de'', ''text'' \<mapsto> ''hello''] =
       ([(''translation'', JStr ''Translation between en and de is not currently supported''),
         (''matchType'', JStr ''none''),
         (''supportedPairs'', JList [''en-fr''])], 404)"
  using translate_unsupported_pair
    [of "''hello''" "[''sourceLang'' \<mapsto> ''en'', ''targetLang'' \<mapsto> ''de'', ''text'' \<mapsto> ''hello'']"
        "''en''" "''de''" "[(''en-fr'', [(''hello'', ''bonjour'')])]"]
  by (simp add: get_default_def strip_def lower_def lower_char_def is_space_def keys_def)





section \<open>The contribution handler, branch by branch\<close>

lemma save_contribution_response:
  "fst (save_contribution db dict_key uuid4 now c) = success uuid4 dict_key"
  by (simp add: save_contribution_def success_def Let_def update_conv' split: option.splits)

lemma save_contribution_contributions:
  "contributions (snd (save_contribution db dict_key uuid4 now c)) =
     AList.update uuid4 c (contributions db)"
  by (simp add: save_contribution_def Let_def update_conv' split: option.splits)

lemma save_contribution_pair_translations:
  "pair_translations (snd (save_contribution db dict_key uuid4 now c)) =
     AList.update (dict_key, uuid4) c (pair_translations db)"
  by (simp add: save_contribution_def Let_def update_conv' split: option.splits)

lemma save_contribution_language_pairs:
  "map_of (language_pairs (snd (save_contribution db dict_key uuid4 now c))) =
     (map_of (language_pairs db))(dict_key \<mapsto>
        (case map_of (language_pairs db) dict_key of
           None \<Rightarrow> \<lparr>pair_source_language = source_language c,
                     pair_target_language = target_language c,
                     total_contributions = 1,
                     pending_contributions = 1,
                     validated_contributions = 0,
                     last_updated = now\<rparr>
         | Some a \<Rightarrow> a\<lparr>total_contributions := total_contributions a + 1,
                        pending_contributions := pending_contributions a + 1,
                        last_updated := now\<rparr>))"
  by (simp add: save_contribution_def Let_def update_conv' split: option.splits)

lemma contribute_valid:
  assumes "firebase_error s = None"
    and "lower (strip (get_default data ''source_text'')) \<noteq> []"
    and "strip (get_default data ''target_text'') \<noteq> []"
    and "strip (lower (get_default data ''source_language'')) \<noteq> []"
    and "strip (lower (get_default data ''target_language'')) \<noteq> []"
  shows "contribute TEMPORARY_DICTIONARIES uuid4 now s data =
           (let existing_translation =
                  find_existing_translation TEMPORARY_DICTIONARIES s (contribution_key data)
                    (lower (strip (get_default data ''source_text'')))
                    (strip (lower (get_default data ''source_language'')))
                    (strip (lower (get_default data ''target_language'')))
            in if truthy existing_translation then
                 (([(''error'', JStr ''This translation already exists''),
                    (''existing_translation'', JStr (the existing_translation)),
                    (''status'', JStr ''duplicate'')], 409), s)
               else save_contribution s (contribution_key data) uuid4 now
                      (new_contribution uuid4 now data))"
  using assms
  by (simp add: contribute_def Let_def initialize_firebase_def contribution_key_def
        new_contribution_def)

lemma contribute_outcomes:
  "(snd (fst (contribute TEMPORARY_DICTIONARIES uuid4 now s data)) \<noteq> 201 \<and>
    snd (contribute TEMPORARY_DICTIONARIES uuid4 now s data) = s) \<or>
   contribute TEMPORARY_DICTIONARIES uuid4 now s data =
     save_contribution s (contribution_key data) uuid4 now (new_contribution uuid4 now data)"
proof (cases "firebase_error s = None \<and>
    lower (strip (get_default data ''source_text'')) \<noteq> [] \<and>
    strip (get_default data ''target_text'') \<noteq> [] \<and>
    strip (lower (get_default data ''source_language'')) \<noteq> [] \<and>
    strip (lower (get_default data ''target_language'')) \<noteq> []")
  case True
  then show ?thesis
    by (simp add: contribute_valid Let_def)
next
  case False
  then have "snd (fst (contribute TEMPORARY_DICTIONARIES uuid4 now s data)) \<noteq> 201 \<and>
    snd (contribute TEMPORARY_DICTIONARIES uuid4 now s data) = s"
    by (cases "firebase_error s")
      (auto simp add: contribute_def Let_def initialize_firebase_def internal_error_def)
  then show ?thesis by simp
qed

lemma contribute_unchanged:
  "snd (fst (contribute TEMPORARY_DICTIONARIES uuid4 now s data)) \<noteq> 201 \<Longrightarrow>
   snd (contribute TEMPORARY_DICTIONARIES uuid4 now s data) = s"
  using contribute_outcomes [of TEMPORARY_DICTIONARIES uuid4 now s data]
  by (auto simp add: save_contribution_response success_def)

lemma contribute_saved:
  "snd (fst (contribute TEMPORARY_DICTIONARIES uuid4 now s data)) = 201 \<Longrightarrow>
   contribute TEMPORARY_DICTIONARIES uuid4 now s data =
     save_contribution s (contribution_key data) uuid4 now (new_contribution uuid4 now data)"
  using contribute_outcomes [of TEMPORARY_DICTIONARIES uuid4 now s data]
  by auto


lemma update_fresh: "map_of al k = None \<Longrightarrow> AList.update k v al = al @ [(k, v)]"
  by (induction al) (auto split: if_splits)

lemma contribute_accepted:
  assumes "firebase_error s = None"
    and "lower (strip (get_default data ''source_text'')) \<noteq> []"
    and "strip (get_default data ''target_text'') \<noteq> []"
    and "strip (lower (get_default data ''source_language'')) \<noteq> []"
    and "strip (lower (get_default data ''target_language'')) \<noteq> []"
    and "\<not> truthy (find_existing_translation TEMPORARY_DICTIONARIES s (contribution_key data)
                    (lower (strip (get_default data ''source_text'')))
                    (strip (lower (get_default data ''source_language'')))
                    (strip (lower (get_default data ''target_language''))))"
  shows "contribute TEMPORARY_DICTIONARIES uuid4 now s data =
           save_contribution s (contribution_key data) uuid4 now (new_contribution uuid4 now data)"
  using assms by (simp add: contribute_valid Let_def)

lemma saved_written:
  assumes "contribute TEMPORARY_DICTIONARIES uuid4 now s data =
           save_contribution s (contribution_key data) uuid4 now (new_contribution uuid4 now data)"
  shows "fst (contribute TEMPORARY_DICTIONARIES uuid4 now s data) =
           ([(''success'', JBool True),
             (''message'', JStr ''Contribution received and pending review''),
             (''contribution_id'', JStr uuid4),
             (''status'', JStr ''pending''),
             (''language_pair'', JStr (contribution_key data))], 201)"
    and "map_of (contributions (snd (contribute TEMPORARY_DICTIONARIES uuid4 now s data))) uuid4 =
           Some (new_contribution uuid4 now data)"
    and "map_of (pair_translations (snd (contribute TEMPORARY_DICTIONARIES uuid4 now s data)))
           (contribution_key data, uuid4) = Some (new_contribution uuid4 now data)"
  using assms
  by (simp_all add: save_contribution_response success_def save_contribution_contributions
        save_contribution_pair_translations update_conv')

lemma saved_pending_count:
  assumes "contribute TEMPORARY_DICTIONARIES uuid4 now s data =
           save_contribution s (contribution_key data) uuid4 now (new_contribution uuid4 now data)"
    and "map_of (contributions s) uuid4 = None"
  shows "length (filter (pending_duplicate data)
                  (map snd (contributions (snd (contribute TEMPORARY_DICTIONARIES uuid4 now s data))))) =
         length (filter (pending_duplicate data) (map snd (contributions s))) + 1"
  using assms
  by (simp add: save_contribution_contributions update_fresh pending_duplicate_def
        new_contribution_def)

lemma contribute_duplicate:
  assumes "firebase_error s = None"
    and "source_text' = lower (strip (get_default data ''source_text''))"
    and "source_language' = strip (lower (get_default data ''source_language''))"
    and "target_language' = strip (lower (get_default data ''target_language''))"
    and "source_text' \<noteq> []" and "strip (get_default data ''target_text'') \<noteq> []"
    and "source_language' \<noteq> []" and "target_language' \<noteq> []"
    and "existing \<noteq> []"
    and "(\<exists>dictionary. map_of TEMPORARY_DICTIONARIES (source_language' @ ''-'' @ target_language') =
             Some dictionary \<and> map_of dictionary source_text' = Some existing) \<or>
         ((\<forall>dictionary. map_of TEMPORARY_DICTIONARIES (source_language' @ ''-'' @ target_language') =
             Some dictionary \<longrightarrow> map_of dictionary source_text' = None) \<and>
          (\<exists>approved rest.
             query_contributions s source_text' source_language' target_language' ''validated'' =
               approved # rest \<and> target_text approved = existing))"
  shows "contribute TEMPORARY_DICTIONARIES uuid4 now s data =
           (([(''error'', JStr ''This translation already exists''),
              (''existing_translation'', JStr existing),
              (''status'', JStr ''duplicate'')], 409), s)"
proof -
  have key: "contribution_key data = source_language' @ ''-'' @ target_language'"
    using assms by (simp add: contribution_key_def)
  have "find_existing_translation TEMPORARY_DICTIONARIES s (contribution_key data)
            source_text' source_language' target_language' = Some existing"
    using assms(9,10) key
    by (auto simp add: find_existing_translation_def Let_def split: option.splits)
  then show ?thesis
    using assms by (simp add: contribute_valid Let_def)
qed


lemma save_contribution_counters:
  assumes "s' = snd (save_contribution s dict_key uuid4 now c)"
  shows "map_of (language_pairs s') dict_key \<noteq> None"
    and "counters s' dict_key = (case counters s dict_key of (t, p, v) \<Rightarrow> (t + 1, p + 1, v))"
    and "k \<noteq> dict_key \<Longrightarrow> map_of (language_pairs s') k = map_of (language_pairs s) k"
  using assms
  by (simp_all add: counters_def save_contribution_language_pairs split: option.splits)

lemma save_contribution_invariant:
  assumes "aggregate_invariant s"
  shows "aggregate_invariant (snd (save_contribution s dict_key uuid4 now c))"
  using assms
  by (auto simp add: aggregate_invariant_def save_contribution_language_pairs
        split: option.splits if_splits)

lemma contribute_invariant:
  assumes "aggregate_invariant s"
  shows "aggregate_invariant (snd (contribute TEMPORARY_DICTIONARIES uuid4 now s data))"
  using contribute_outcomes [of TEMPORARY_DICTIONARIES uuid4 now s data] assms
  by (auto simp add: save_contribution_invariant)

lemma contribute_all_invariant:
  "aggregate_invariant s \<Longrightarrow> aggregate_invariant (contribute_all TEMPORARY_DICTIONARIES s requests)"
proof (induction requests arbitrary: s)
  case Nil
  then show ?case by simp
next
  case (Cons r requests)
  obtain uuid4 now data where r: "r = (uuid4, now, data)"
    by (cases r) auto
  from Cons.prems have "aggregate_invariant (snd (contribute TEMPORARY_DICTIONARIES uuid4 now s data))"
    by (rule contribute_invariant)
  then show ?case
    using Cons.IH r by simp
qed

lemma save_contribution_sync:
  assumes "copies_in_sync s" and "map_of (contributions s) uuid4 = None"
  shows "copies_in_sync (snd (save_contribution s dict_key uuid4 now c))"
proof -
  have none: "map_of (pair_translations s) (k, uuid4) = None" for k
  proof (cases "map_of (pair_translations s) (k, uuid4)")
    case None
    then show ?thesis .
  next
    case (Some a)
    with assms(1) have "map_of (contributions s) uuid4 = Some a"
      unfolding copies_in_sync_def by blast
    with assms(2) show ?thesis by simp
  qed
  show ?thesis
    unfolding copies_in_sync_def save_contribution_contributions
      save_contribution_pair_translations update_conv'
  proof (intro allI)
    fix i c'
    show "((map_of (contributions s))(uuid4 \<mapsto> c)) i = Some c' \<longleftrightarrow>
          (\<exists>k. ((map_of (pair_translations s))((dict_key, uuid4) \<mapsto> c)) (k, i) = Some c')"
    proof (cases "i = uuid4")
      case True
      then show ?thesis
        using none by auto
    next
      case False
      then show ?thesis
        using assms(1) by (simp add: copies_in_sync_def)
    qed
  qed
qed

section \<open>One request at a time and two at once\<close>

text \<open>
  The steps of one request, run with no other request in between, are \<open>contribute\<close>: the
  same response and the same store.
\<close>

lemma step_received:
  "step TEMPORARY_DICTIONARIES (start uuid4 now data) s =
     (if snd (fst (contribute TEMPORARY_DICTIONARIES uuid4 now s data)) = 201
      then ((start uuid4 now data)\<lparr>run_point := Deduplicated\<rparr>, s)
      else ((start uuid4 now data)\<lparr>run_point :=
              Answered (fst (contribute TEMPORARY_DICTIONARIES uuid4 now s data))\<rparr>, s))"
  by (cases "firebase_error s")
    (simp_all add: step_def start_def contribute_def Let_def initialize_firebase_def
       internal_error_def new_contribution_def contribution_key_def save_contribution_response
       success_def)

lemma run_alone_saves:
  "interleave TEMPORARY_DICTIONARIES [0, 0, 0, 0, 0]
     [(start uuid4 now data)\<lparr>run_point := Deduplicated\<rparr>] s =
   ([(start uuid4 now data)\<lparr>run_point :=
       Answered (fst (save_contribution s (contribution_key data) uuid4 now
                        (new_contribution uuid4 now data)))\<rparr>],
    snd (save_contribution s (contribution_key data) uuid4 now (new_contribution uuid4 now data)))"
  by (cases "map_of (language_pairs s) (contribution_key data)")
    (simp_all add: step_def start_def update_counters_def save_contribution_def Let_def
       update_conv' success_def new_contribution_def)

lemma interleave_answered:
  "interleave TEMPORARY_DICTIONARIES schedule [r\<lparr>run_point := Answered response\<rparr>] s =
     ([r\<lparr>run_point := Answered response\<rparr>], s)"
  by (induction schedule) (simp_all add: step_def)

lemma run_alone_is_contribute:
  "interleave TEMPORARY_DICTIONARIES [0, 0, 0, 0, 0, 0] [start uuid4 now data] s =
     ([(start uuid4 now data)\<lparr>run_point :=
         Answered (fst (contribute TEMPORARY_DICTIONARIES uuid4 now s data))\<rparr>],
      snd (contribute TEMPORARY_DICTIONARIES uuid4 now s data))"
proof (cases "snd (fst (contribute TEMPORARY_DICTIONARIES uuid4 now s data)) = 201")
  case True
  then have "contribute TEMPORARY_DICTIONARIES uuid4 now s data =
      save_contribution s (contribution_key data) uuid4 now (new_contribution uuid4 now data)"
    by (rule contribute_saved)
  then show ?thesis
    using True run_alone_saves [of TEMPORARY_DICTIONARIES uuid4 now data s]
    by (simp add: step_received)
next
  case False
  then have "snd (contribute TEMPORARY_DICTIONARIES uuid4 now s data) = s"
    by (rule contribute_unchanged)
  then show ?thesis
    using False interleave_answered
      [where schedule = "[0, 0, 0, 0, 0]" and r = "start uuid4 now data"]
    by (simp add: step_received)
qed


text \<open>Two first contributions to a new pair, one handled after the other, are both counted.\<close>

lemma consecutive_first_contributions_count_both:
  "(case interleave [(''en-fr'', [(''hello'', ''bonjour'')])]
           [0, 0, 0, 0, 0, 0, 1, 1, 1, 1, 1, 1]
           [start ''id1'' ''t1'' [''source_text'' \<mapsto> ''cat'', ''target_text'' \<mapsto> ''chat'',
                                  ''source_language'' \<mapsto> ''en'', ''target_language'' \<mapsto> ''fr''],
            start ''id2'' ''t2'' [''source_text'' \<mapsto> ''dog'', ''target_text'' \<mapsto> ''chien'',
                                  ''source_language'' \<mapsto> ''en'', ''target_language'' \<mapsto> ''fr'']]
           \<lparr>firebase_error = None, contributions = [], language_pairs = [],
            pair_translations = []\<rparr> of
      (runs, s) \<Rightarrow>
        map run_point runs =
          [Answered (success ''id1'' ''en-fr''), Answered (success ''id2'' ''en-fr'')] \<and>
        map fst (language_pairs s) = [''en-fr''] \<and>
        counters s ''en-fr'' = (2, 2, 0))"
  by (simp add: step_def start_def update_counters_def initialize_firebase_def
        find_existing_translation_def query_contributions_def new_contribution_def
        contribution_key_def get_default_def strip_def lower_def lower_char_def is_space_def
        counters_def success_def Let_def)


section \<open>Properties of the contribution handler\<close>

text \<open>
  C3 (duplicates are rejected). \<open>contribute_duplicate\<close> above is the part of the claim the
  handler keeps: a non-empty translation found in the bucket, or else in a validated
  contribution, is answered with status 409 and that translation, and the store is left as it
  was. The specification asks for the same whenever the source text is a key of the bucket,
  and the comments of the handler speak of a translation that is found or not found. The
  handler tests the translation it found for truth, not for presence, so a key whose
  translation is the empty string is not a duplicate for it: with the bucket
  \<open>{"hello": ""}\<close> and an empty store, the contribution of \<open>hello\<close> is accepted with status
  201 and written to all three places, while \<open>translate\<close> answers \<open>hello\<close> from the
  same bucket as an exact match.
\<close>

theorem contribute_dictionary_key_accepted:
  "contribute [(''en-fr'', [(''hello'', [])])] ''id1'' ''t1''
     \<lparr>firebase_error = None, contributions = [], language_pairs = [], pair_translations = []\<rparr>
     [''source_text'' \<mapsto> ''hello'', ''target_text'' \<mapsto> ''salut'',
      ''source_language'' \<mapsto> ''en'', ''target_language'' \<mapsto> ''fr''] =
   (([(''success'', JBool True),
      (''message'', JStr ''Contribution received and pending review''),
      (''contribution_id'', JStr ''id1''),
      (''status'', JStr ''pending''),
      (''language_pair'', JStr ''en-fr'')], 201),
    \<lparr>firebase_error = None,
     contributions =
       [(''id1'', \<lparr>doc_id = ''id1'', source_text = ''hello'', target_text = ''salut'',
                  source_language = ''en'', target_language = ''fr'',
                  source_example = [], target_example = [], status = ''pending'',
                  created_at = ''t1'', updated_at = ''t1'', votes = 0, reviewed = False\<rparr>)],
     language_pairs =
       [(''en-fr'', \<lparr>pair_source_language = ''en'', pair_target_language = ''fr'',
                    total_contributions = 1, pending_contributions = 1,
                    validated_contributions = 0, last_updated = ''t1''\<rparr>)],
     pair_translations =
       [((''en-fr'', ''id1''),
         \<lparr>doc_id = ''id1'', source_text = ''hello'', target_text = ''salut'',
          source_language = ''en'', target_language = ''fr'',
          source_example = [], target_example = [], status = ''pending'',
          created_at = ''t1'', updated_at = ''t1'', votes = 0, reviewed = False\<rparr>)]\<rparr>)"
  by (simp add: contribute_def save_contribution_def initialize_firebase_def
        find_existing_translation_def query_contributions_def get_default_def strip_def
        lower_def lower_char_def is_space_def Let_def)

text \<open>
  C4 (pending duplicates are accepted). A valid contribution whose source text is in no
  bucket for its key and for which the store has no validated contribution is accepted with
  status 201; the new pending document is in \<open>contributions\<close> and in the pair's
  \<open>translations\<close> under the new id. Nothing is asked of the pending documents already in the
  store: when the id is new, the number of pending documents for the same text and languages
  grows by one, whatever it was.
\<close>

theorem contribute_accepts_pending_duplicate:
  assumes "firebase_error s = None"
    and "source_text' = lower (strip (get_default data ''source_text''))"
    and "source_language' = strip (lower (get_default data ''source_language''))"
    and "target_language' = strip (lower (get_default data ''target_language''))"
    and "source_text' \<noteq> []" and "strip (get_default data ''target_text'') \<noteq> []"
    and "source_language' \<noteq> []" and "target_language' \<noteq> []"
    and "\<forall>dictionary. map_of TEMPORARY_DICTIONARIES (source_language' @ ''-'' @ target_language') =
           Some dictionary \<longrightarrow> map_of dictionary source_text' = None"
    and "query_contributions s source_text' source_language' target_language' ''validated'' = []"
  shows "fst (contribute TEMPORARY_DICTIONARIES uuid4 now s data) =
           ([(''success'', JBool True),
             (''message'', JStr ''Contribution received and pending review''),
             (''contribution_id'', JStr uuid4),
             (''status'', JStr ''pending''),
             (''language_pair'', JStr (source_language' @ ''-'' @ target_language'))], 201) \<and>
         map_of (contributions (snd (contribute TEMPORARY_DICTIONARIES uuid4 now s data))) uuid4 =
           Some (new_contribution uuid4 now data) \<and>
         map_of (pair_translations (snd (contribute TEMPORARY_DICTIONARIES uuid4 now s data)))
             (source_language' @ ''-'' @ target_language', uuid4) =
           Some (new_contribution uuid4 now data) \<and>
         (map_of (contributions s) uuid4 = None \<longrightarrow>
            length (filter (pending_duplicate data)
                      (map snd (contributions (snd (contribute TEMPORARY_DICTIONARIES uuid4 now s data))))) =
            length (filter (pending_duplicate data) (map snd (contributions s))) + 1)"
proof -
  have key: "contribution_key data = source_language' @ ''-'' @ target_language'"
    using assms by (simp add: contribution_key_def)
  have "find_existing_translation TEMPORARY_DICTIONARIES s (contribution_key data)
          source_text' source_language' target_language' = None"
    using assms key by (simp add: find_existing_translation_def Let_def split: option.splits)
  then have saved: "contribute TEMPORARY_DICTIONARIES uuid4 now s data =
      save_contribution s (contribution_key data) uuid4 now (new_contribution uuid4 now data)"
    using assms by (intro contribute_accepted) simp_all
  show ?thesis
    using saved_written [OF saved] saved_pending_count [OF saved] key
    by simp
qed

theorem contribute_accepts_pending_duplicate_witness:
  "fst (contribute [(''en-fr'', [(''hello'', ''bonjour'')])] ''id2'' ''t2''
         \<lparr>firebase_error = None,
          contributions =
            [(''id1'', \<lparr>doc_id = ''id1'', source_text = ''cat'', target_text = ''chat'',
                       source_language = ''en'', target_language = ''fr'',
                       source_example = [], target_example = [], status = ''pending'',
                       created_at = ''t1'', updated_at = ''t1'', votes = 0, reviewed = False\<rparr>)],
          language_pairs =
            [(''en-fr'', \<lparr>pair_source_language = ''en'', pair_target_language = ''fr'',
                         total_contributions = 1, pending_contributions = 1,
                         validated_contributions = 0, last_updated = ''t1''\<rparr>)],
          pair_translations =
            [((''en-fr'', ''id1''),
              \<lparr>doc_id = ''id1'', source_text = ''cat'', target_text = ''chat'',
               source_language = ''en'', target_language = ''fr'',
               source_example = [], target_example = [], status = ''pending'',
               created_at = ''t1'', updated_at = ''t1'', votes = 0, reviewed = False\<rparr>)]\<rparr>
         [''source_text'' \<mapsto> ''Cat'', ''target_text'' \<mapsto> ''chat'',
          ''source_language'' \<mapsto> ''en'', ''target_language'' \<mapsto> ''fr'']) =
     ([(''success'', JBool True),
       (''message'', JStr ''Contribution received and pending review''),
       (''contribution_id'', JStr ''id2''),
       (''status'', JStr ''pending''),
       (''language_pair'', JStr ''en-fr'')], 201) \<and>
   length (filter (pending_duplicate
                     [''source_text'' \<mapsto> ''Cat'', ''target_text'' \<mapsto> ''chat'',
                      ''source_language'' \<mapsto> ''en'', ''target_language'' \<mapsto> ''fr''])
       (map snd (contributions (snd (contribute [(''en-fr'', [(''hello'', ''bonjour'')])] ''id2'' ''t2''
         \<lparr>firebase_error = None,
          contributions =
            [(''id1'', \<lparr>doc_id = ''id1'', source_text = ''cat'', target_text = ''chat'',
                       source_language = ''en'', target_language = ''fr'',
                       source_example = [], target_example = [], status = ''pending'',
                       created_at = ''t1'', updated_at = ''t1'', votes = 0, reviewed = False\<rparr>)],
          language_pairs =
            [(''en-fr'', \<lparr>pair_source_language = ''en'', pair_target_language = ''fr'',
                         total_contributions = 1, pending_contributions = 1,
                         validated_contributions = 0, last_updated = ''t1''\<rparr>)],
          pair_translations =
            [((''en-fr'', ''id1''),
              \<lparr>doc_id = ''id1'', source_text = ''cat'', target_text = ''chat'',
               source_language = ''en'', target_language = ''fr'',
               source_example = [], target_example = [], status = ''pending'',
               created_at = ''t1'', updated_at = ''t1'', votes = 0, reviewed = False\<rparr>)]\<rparr>
         [''source_text'' \<mapsto> ''Cat'', ''target_text'' \<mapsto> ''chat'',
          ''source_language'' \<mapsto> ''en'', ''target_language'' \<mapsto> ''fr'']))))) = 2"
proof -
  let ?D = "[(''en-fr'', [(''hello'', ''bonjour'')])]"
  let ?c = "\<lparr>doc_id = ''id1'', source_text = ''cat'', target_text = ''chat'',
               source_language = ''en'', target_language = ''fr'',
               source_example = [], target_example = [], status = ''pending'',
               created_at = ''t1'', updated_at = ''t1'', votes = 0, reviewed = False\<rparr>"
  let ?s = "\<lparr>firebase_error = None,
          contributions = [(''id1'', ?c)],
          language_pairs =
            [(''en-fr'', \<lparr>pair_source_language = ''en'', pair_target_language = ''fr'',
                         total_contributions = 1, pending_contributions = 1,
                         validated_contributions = 0, last_updated = ''t1''\<rparr>)],
          pair_translations = [((''en-fr'', ''id1''), ?c)]\<rparr>"
  let ?data = "[''source_text'' \<mapsto> ''Cat'', ''target_text'' \<mapsto> ''chat'',
          ''source_language'' \<mapsto> ''en'', ''target_language'' \<mapsto> ''fr'']"
  have fields: "''cat'' = lower (strip (get_default ?data ''source_text''))"
    "''en'' = strip (lower (get_default ?data ''source_language''))"
    "''fr'' = strip (lower (get_default ?data ''target_language''))"
    "strip (get_default ?data ''target_text'') \<noteq> []"
    by (simp_all add: get_default_def strip_def lower_def lower_char_def is_space_def)
  have dict: "\<forall>dictionary. map_of ?D (''en'' @ ''-'' @ ''fr'') = Some dictionary \<longrightarrow>
      map_of dictionary ''cat'' = None"
    by simp
  have store: "firebase_error ?s = None"
    "query_contributions ?s ''cat'' ''en'' ''fr'' ''validated'' = []"
    "map_of (contributions ?s) ''id2'' = None"
    by (simp_all add: query_contributions_def)
  have count: "length (filter (pending_duplicate ?data) (map snd (contributions ?s))) = 1"
    using fields(1-3) [symmetric] by (simp add: pending_duplicate_def)
  show ?thesis
    using contribute_accepts_pending_duplicate
      [of ?s "''cat''" ?data "''en''" "''fr''" ?D "''id2''" "''t2''",
       OF store(1) fields(1-3) _ fields(4) _ _ dict store(2)]
      store(3) count
    by simp
qed

text \<open>
  C10 (empty dictionary translation). A valid contribution whose source text is a key of
  its bucket with the empty string as translation is not rejected for that: when the store
  has no validated contribution for it, it is accepted with status 201 and written; when the
  store has one with a non-empty target text, it is rejected with status 409 and that target
  text, so the validated check is the one that decides.
\<close>

theorem contribute_empty_dictionary_translation:
  assumes "firebase_error s = None"
    and "source_text' = lower (strip (get_default data ''source_text''))"
    and "source_language' = strip (lower (get_default data ''source_language''))"
    and "target_language' = strip (lower (get_default data ''target_language''))"
    and "source_text' \<noteq> []" and "strip (get_default data ''target_text'') \<noteq> []"
    and "source_language' \<noteq> []" and "target_language' \<noteq> []"
    and "map_of TEMPORARY_DICTIONARIES (source_language' @ ''-'' @ target_language') = Some dictionary"
    and "map_of dictionary source_text' = Some []"
  shows "(query_contributions s source_text' source_language' target_language' ''validated'' = [] \<longrightarrow>
            fst (contribute TEMPORARY_DICTIONARIES uuid4 now s data) =
              ([(''success'', JBool True),
                (''message'', JStr ''Contribution received and pending review''),
                (''contribution_id'', JStr uuid4),
                (''status'', JStr ''pending''),
                (''language_pair'', JStr (source_language' @ ''-'' @ target_language'))], 201) \<and>
            map_of (contributions (snd (contribute TEMPORARY_DICTIONARIES uuid4 now s data))) uuid4 =
              Some (new_contribution uuid4 now data) \<and>
            map_of (pair_translations (snd (contribute TEMPORARY_DICTIONARIES uuid4 now s data)))
                (source_language' @ ''-'' @ target_language', uuid4) =
              Some (new_contribution uuid4 now data)) \<and>
         (\<forall>approved rest.
            query_contributions s source_text' source_language' target_language' ''validated'' =
              approved # rest \<and> target_text approved \<noteq> [] \<longrightarrow>
            contribute TEMPORARY_DICTIONARIES uuid4 now s data =
              (([(''error'', JStr ''This translation already exists''),
                 (''existing_translation'', JStr (target_text approved)),
                 (''status'', JStr ''duplicate'')], 409), s))"
proof (intro conjI impI allI)
  have key: "contribution_key data = source_language' @ ''-'' @ target_language'"
    using assms by (simp add: contribution_key_def)
  {
    assume none: "query_contributions s source_text' source_language' target_language' ''validated'' = []"
    have "find_existing_translation TEMPORARY_DICTIONARIES s (contribution_key data)
            source_text' source_language' target_language' = Some []"
      using assms key none by (simp add: find_existing_translation_def Let_def)
    then have saved: "contribute TEMPORARY_DICTIONARIES uuid4 now s data =
        save_contribution s (contribution_key data) uuid4 now (new_contribution uuid4 now data)"
      using assms by (intro contribute_accepted) simp_all
    show "fst (contribute TEMPORARY_DICTIONARIES uuid4 now s data) =
              ([(''success'', JBool True),
                (''message'', JStr ''Contribution received and pending review''),
                (''contribution_id'', JStr uuid4),
                (''status'', JStr ''pending''),
                (''language_pair'', JStr (source_language' @ ''-'' @ target_language'))], 201)"
      using saved_written(1) [OF saved] key by simp
    show "map_of (contributions (snd (contribute TEMPORARY_DICTIONARIES uuid4 now s data))) uuid4 =
              Some (new_contribution uuid4 now data)"
      using saved_written(2) [OF saved] by simp
    show "map_of (pair_translations (snd (contribute TEMPORARY_DICTIONARIES uuid4 now s data)))
              (source_language' @ ''-'' @ target_language', uuid4) =
              Some (new_contribution uuid4 now data)"
      using saved_written(3) [OF saved] key by simp
  }
  fix approved rest
  assume found: "query_contributions s source_text' source_language' target_language' ''validated'' =
              approved # rest \<and> target_text approved \<noteq> []"
  then have "find_existing_translation TEMPORARY_DICTIONARIES s (contribution_key data)
            source_text' source_language' target_language' = Some (target_text approved)"
    using assms key by (simp add: find_existing_translation_def Let_def)
  then show "contribute TEMPORARY_DICTIONARIES uuid4 now s data =
              (([(''error'', JStr ''This translation already exists''),
                 (''existing_translation'', JStr (target_text approved)),
                 (''status'', JStr ''duplicate'')], 409), s)"
    using assms found by (simp add: contribute_valid Let_def)
qed

theorem contribute_empty_dictionary_translation_witness:
  "fst (contribute [(''en-fr'', [(''hello'', ''bonjour''), (''soon'', [])])] ''id1'' ''t1''
         \<lparr>firebase_error = None, contributions = [], language_pairs = [], pair_translations = []\<rparr>
         [''source_text'' \<mapsto> ''soon'', ''target_text'' \<mapsto> ''bientot'',
          ''source_language'' \<mapsto> ''en'', ''target_language'' \<mapsto> ''fr'']) =
     ([(''success'', JBool True),
       (''message'', JStr ''Contribution received and pending review''),
       (''contribution_id'', JStr ''id1''),
       (''status'', JStr ''pending''),
       (''language_pair'', JStr ''en-fr'')], 201)"
proof -
  let ?dictionary = "[(''hello'', ''bonjour''), (''soon'', [])]"
  let ?s = "\<lparr>firebase_error = None, contributions = [], language_pairs = [],
             pair_translations = []\<rparr>"
  let ?data = "[''source_text'' \<mapsto> ''soon'', ''target_text'' \<mapsto> ''bientot'',
          ''source_language'' \<mapsto> ''en'', ''target_language'' \<mapsto> ''fr'']"
  have fields: "''soon'' = lower (strip (get_default ?data ''source_text''))"
    "''en'' = strip (lower (get_default ?data ''source_language''))"
    "''fr'' = strip (lower (get_default ?data ''target_language''))"
    "strip (get_default ?data ''target_text'') \<noteq> []"
    by (simp_all add: get_default_def strip_def lower_def lower_char_def is_space_def)
  have dict: "map_of [(''en-fr'', ?dictionary)] (''en'' @ ''-'' @ ''fr'') = Some ?dictionary"
    "map_of ?dictionary ''soon'' = Some []"
    by simp_all
  have store: "firebase_error ?s = None"
    "query_contributions ?s ''soon'' ''en'' ''fr'' ''validated'' = []"
    by (simp_all add: query_contributions_def)
  show ?thesis
    using contribute_empty_dictionary_translation
      [of ?s "''soon''" ?data "''en''" "''fr''" "[(''en-fr'', ?dictionary)]" ?dictionary
          "''id1''" "''t1''",
       OF store(1) fields(1-3) _ fields(4) _ _ dict]
      store(2)
    by simp
qed

text \<open>
  C6 (aggregate counters). In a store whose aggregates all have total at least pending, a
  contribution request leaves a store with the same property, and so does any sequence of
  contribution requests. A request answered with status 201 leaves an aggregate for its key
  whose total and pending counters are each one more than before, counted from zero when the
  key had no aggregate, and whose validated counter is the same; the aggregates of other keys
  are as before. A request answered otherwise changes no aggregate.
\<close>

theorem aggregate_counters:
  assumes "aggregate_invariant s"
    and "contribute TEMPORARY_DICTIONARIES uuid4 now s data = ((body, code), s')"
    and "dict_key = contribution_key data"
  shows "aggregate_invariant s' \<and>
         aggregate_invariant (contribute_all TEMPORARY_DICTIONARIES s requests) \<and>
         (if code = 201 then
            map_of (language_pairs s') dict_key \<noteq> None \<and>
            counters s' dict_key = (case counters s dict_key of (t, p, v) \<Rightarrow> (t + 1, p + 1, v)) \<and>
            (\<forall>k. k \<noteq> dict_key \<longrightarrow> map_of (language_pairs s') k = map_of (language_pairs s) k)
          else language_pairs s' = language_pairs s)"
proof (intro conjI)
  show "aggregate_invariant s'"
    using contribute_invariant [OF assms(1), of TEMPORARY_DICTIONARIES uuid4 now data] assms(2)
    by simp
  show "aggregate_invariant (contribute_all TEMPORARY_DICTIONARIES s requests)"
    using assms(1) by (rule contribute_all_invariant)
  show "if code = 201 then
            map_of (language_pairs s') dict_key \<noteq> None \<and>
            counters s' dict_key = (case counters s dict_key of (t, p, v) \<Rightarrow> (t + 1, p + 1, v)) \<and>
            (\<forall>k. k \<noteq> dict_key \<longrightarrow> map_of (language_pairs s') k = map_of (language_pairs s) k)
          else language_pairs s' = language_pairs s"
  proof (cases "code = 201")
    case True
    then have "contribute TEMPORARY_DICTIONARIES uuid4 now s data =
        save_contribution s dict_key uuid4 now (new_contribution uuid4 now data)"
      using contribute_saved [of TEMPORARY_DICTIONARIES uuid4 now s data] assms(2,3) by simp
    then have "s' = snd (save_contribution s dict_key uuid4 now (new_contribution uuid4 now data))"
      using assms(2) by (metis snd_conv)
    then show ?thesis
      using True save_contribution_counters [of s' s dict_key uuid4 now "new_contribution uuid4 now data"]
      by simp
  next
    case False
    then have "s' = s"
      using contribute_unchanged [of TEMPORARY_DICTIONARIES uuid4 now s data] assms(2) by simp
    then show ?thesis
      using False by simp
  qed
qed

theorem aggregate_counters_witness:
  "aggregate_invariant
     (contribute_all [(''en-fr'', [(''hello'', ''bonjour'')])]
        \<lparr>firebase_error = None, contributions = [], language_pairs = [], pair_translations = []\<rparr>
        [(''id1'', ''t1'', [''source_text'' \<mapsto> ''cat'', ''target_text'' \<mapsto> ''chat'',
                            ''source_language'' \<mapsto> ''en'', ''target_language'' \<mapsto> ''fr'']),
         (''id2'', ''t2'', [''source_text'' \<mapsto> ''cat'', ''target_text'' \<mapsto> ''chat'',
                            ''source_language'' \<mapsto> ''en'', ''target_language'' \<mapsto> ''fr''])]) \<and>
   counters
     (snd (contribute [(''en-fr'', [(''hello'', ''bonjour'')])] ''id1'' ''t1''
        \<lparr>firebase_error = None, contributions = [], language_pairs = [], pair_translations = []\<rparr>
        [''source_text'' \<mapsto> ''cat'', ''target_text'' \<mapsto> ''chat'',
         ''source_language'' \<mapsto> ''en'', ''target_language'' \<mapsto> ''fr'']))
     ''en-fr'' = (1, 1, 0)"
proof -
  let ?D = "[(''en-fr'', [(''hello'', ''bonjour'')])]"
  let ?s = "\<lparr>firebase_error = None, contributions = [], language_pairs = [],
             pair_translations = []\<rparr>"
  let ?data = "[''source_text'' \<mapsto> ''cat'', ''target_text'' \<mapsto> ''chat'',
          ''source_language'' \<mapsto> ''en'', ''target_language'' \<mapsto> ''fr'']"
  let ?result = "contribute ?D ''id1'' ''t1'' ?s ?data"
  have inv: "aggregate_invariant ?s"
    by (simp add: aggregate_invariant_def)
  have result: "?result = ((fst (fst ?result), snd (fst ?result)), snd ?result)"
    by simp
  have key: "''en-fr'' = contribution_key ?data"
    by (simp add: contribution_key_def get_default_def strip_def lower_def lower_char_def
          is_space_def)
  have code: "snd (fst ?result) = 201"
    by (simp add: contribute_def save_contribution_def initialize_firebase_def
          find_existing_translation_def query_contributions_def get_default_def strip_def
          lower_def lower_char_def is_space_def Let_def)
  have before: "counters ?s ''en-fr'' = (0, 0, 0)"
    by (simp add: counters_def)
  show ?thesis
    using aggregate_counters
      [OF inv result key,
       where requests = "[(''id1'', ''t1'', ?data), (''id2'', ''t2'', ?data)]"]
      code before
    by simp
qed

text \<open>
  C8 (primary document and copy). A contribution answered with status 201 leaves one
  document that is both in \<open>contributions\<close> under the new id and in the pair's
  \<open>translations\<close> under the same id, and whose id field is that id; a contribution answered
  otherwise writes neither. When the id is new, a store in which primary documents and copies
  correspond stays one in which they do.
\<close>

theorem contribution_copy_in_sync:
  assumes "contribute TEMPORARY_DICTIONARIES uuid4 now s data = ((body, code), s')"
    and "dict_key = contribution_key data"
  shows "(if code = 201 then
            \<exists>c. map_of (contributions s') uuid4 = Some c \<and>
                map_of (pair_translations s') (dict_key, uuid4) = Some c \<and>
                doc_id c = uuid4
          else contributions s' = contributions s \<and> pair_translations s' = pair_translations s) \<and>
         (copies_in_sync s \<and> map_of (contributions s) uuid4 = None \<longrightarrow> copies_in_sync s')"
proof (cases "code = 201")
  case True
  then have saved: "contribute TEMPORARY_DICTIONARIES uuid4 now s data =
      save_contribution s (contribution_key data) uuid4 now (new_contribution uuid4 now data)"
    using contribute_saved [of TEMPORARY_DICTIONARIES uuid4 now s data] assms(1) by simp
  have "doc_id (new_contribution uuid4 now data) = uuid4"
    by (simp add: new_contribution_def)
  moreover have "s' = snd (save_contribution s (contribution_key data) uuid4 now
      (new_contribution uuid4 now data))"
    using saved assms(1) by (metis snd_conv)
  ultimately show ?thesis
    using True saved_written(2,3) [OF saved] assms save_contribution_sync
    by simp
next
  case False
  then have "s' = s"
    using contribute_unchanged [of TEMPORARY_DICTIONARIES uuid4 now s data] assms(1) by simp
  then show ?thesis
    using False by simp
qed
theorem contribution_copy_in_sync_witness:
  "(\<exists>c. map_of (contributions
              (snd (contribute [(''en-fr'', [(''hello'', ''bonjour'')])] ''id1'' ''t1''
                 \<lparr>firebase_error = None, contributions = [], language_pairs = [],
                  pair_translations = []\<rparr>
                 [''source_text'' \<mapsto> ''cat'', ''target_text'' \<mapsto> ''chat'',
                  ''source_language'' \<mapsto> ''en'', ''target_language'' \<mapsto> ''fr'']))) ''id1'' = Some c \<and>
        map_of (pair_translations
              (snd (contribute [(''en-fr'', [(''hello'', ''bonjour'')])] ''id1'' ''t1''
                 \<lparr>firebase_error = None, contributions = [], language_pairs = [],
                  pair_translations = []\<rparr>
                 [''source_text'' \<mapsto> ''cat'', ''target_text'' \<mapsto> ''chat'',
                  ''source_language'' \<mapsto> ''en'', ''target_language'' \<mapsto> ''fr''])))
          (''en-fr'', ''id1'') = Some c \<and>
        doc_id c = ''id1'') \<and>
   copies_in_sync
     (snd (contribute [(''en-fr'', [(''hello'', ''bonjour'')])] ''id1'' ''t1''
        \<lparr>firebase_error = None, contributions = [], language_pairs = [], pair_translations = []\<rparr>
        [''source_text'' \<mapsto> ''cat'', ''target_text'' \<mapsto> ''chat'',
         ''source_language'' \<mapsto> ''en'', ''target_language'' \<mapsto> ''fr'']))"
proof -
  let ?D = "[(''en-fr'', [(''hello'', ''bonjour'')])]"
  let ?s = "\<lparr>firebase_error = None, contributions = [], language_pairs = [],
             pair_translations = []\<rparr>"
  let ?data = "[''source_text'' \<mapsto> ''cat'', ''target_text'' \<mapsto> ''chat'',
          ''source_language'' \<mapsto> ''en'', ''target_language'' \<mapsto> ''fr'']"
  let ?result = "contribute ?D ''id1'' ''t1'' ?s ?data"
  have sync: "copies_in_sync ?s" "map_of (contributions ?s) ''id1'' = None"
    by (simp_all add: copies_in_sync_def)
  have result: "?result = ((fst (fst ?result), snd (fst ?result)), snd ?result)"
    by simp
  have key: "''en-fr'' = contribution_key ?data"
    by (simp add: contribution_key_def get_default_def strip_def lower_def lower_char_def
          is_space_def)
  have code: "snd (fst ?result) = 201"
    by (simp add: contribute_def save_contribution_def initialize_firebase_def
          find_existing_translation_def query_contributions_def get_default_def strip_def
          lower_def lower_char_def is_space_def Let_def)
  show ?thesis
    using contribution_copy_in_sync [OF result key] code sync
    by simp
qed

text \<open>
  C7 (concurrent first contributions). The specification asks that N concurrent first
  contributions to a new pair leave one aggregate with a total of N, and the handler uses
  the store's atomic increment for that. It does not hold for N = 2: when both requests have
  asked \<open>get().exists\<close> before either creates the aggregate, both create it, and the second
  \<open>set\<close> with counters 0 wipes out the increment of the first. Both requests are answered
  with status 201, both documents and both copies are stored, there is one aggregate, and its
  counters are total 1, pending 1.
\<close>

theorem concurrent_first_contributions_lose_a_count:
  "(case interleave [(''en-fr'', [(''hello'', ''bonjour'')])]
           [0, 1, 0, 1, 0, 1, 0, 0, 1, 1, 0, 1]
           [start ''id1'' ''t1'' [''source_text'' \<mapsto> ''cat'', ''target_text'' \<mapsto> ''chat'',
                                  ''source_language'' \<mapsto> ''en'', ''target_language'' \<mapsto> ''fr''],
            start ''id2'' ''t2'' [''source_text'' \<mapsto> ''dog'', ''target_text'' \<mapsto> ''chien'',
                                  ''source_language'' \<mapsto> ''en'', ''target_language'' \<mapsto> ''fr'']]
           \<lparr>firebase_error = None, contributions = [], language_pairs = [],
            pair_translations = []\<rparr> of
      (runs, s) \<Rightarrow>
        map run_point runs =
          [Answered (success ''id1'' ''en-fr''), Answered (success ''id2'' ''en-fr'')] \<and>
        map fst (contributions s) = [''id1'', ''id2''] \<and>
        map fst (pair_translations s) = [(''en-fr'', ''id1''), (''en-fr'', ''id2'')] \<and>
        map fst (language_pairs s) = [''en-fr''] \<and>
        counters s ''en-fr'' = (1, 1, 0))"
  by (simp add: step_def start_def update_counters_def initialize_firebase_def
        find_existing_translation_def query_contributions_def new_contribution_def
        contribution_key_def get_default_def strip_def lower_def lower_char_def is_space_def
        counters_def success_def Let_def)

end
